theory Spec2Isabelle
  imports Complex_Main "HOL-Library.Sublist"
begin

section \<open>Python values and exceptions\<close>

text \<open>
  The program (\<^verbatim>\<open>src/main.py\<close>) passes around what the platform client and the two
  inference pipelines hand back: parsed JSON and plain Python containers. These are modelled by
  one datatype of dynamically typed values. A dictionary is an association list with string
  keys (the first binding of a key is the one looked up). The characters of a \<open>string\<close> stand
  for code points below 256.
\<close>

datatype pyval =
    PNone
  | PBool bool
  | PInt int
  | PFloat real
  | PStr string
  | PList "pyval list"
  | PDict "(string \<times> pyval) list"

text \<open>
  Every \<^verbatim>\<open>try\<close> of the program catches \<^verbatim>\<open>Exception\<close>, so the model only needs to know
  that an exception of that class was raised, and keeps its kind for readability.
  \<open>ServiceError\<close> is any exception raised inside an external call (HTTP error, quota,
  model failure).
\<close>

datatype exn = KeyError | IndexError | TypeError | ValueError | BadRequest | ServiceError

text \<open>Sequencing of fallible steps: the first exception ends the block.\<close>

definition and_then :: "exn + 'a \<Rightarrow> ('a \<Rightarrow> exn + 'b) \<Rightarrow> exn + 'b" where
  "and_then m f = (case m of Inl e \<Rightarrow> Inl e | Inr v \<Rightarrow> f v)"

text \<open>Truth value of an object, as tested by \<^verbatim>\<open>if obj:\<close>.\<close>

fun truthy :: "pyval \<Rightarrow> bool" where
  "truthy PNone = False"
| "truthy (PBool b) = b"
| "truthy (PInt i) = (i \<noteq> 0)"
| "truthy (PFloat r) = (r \<noteq> 0)"
| "truthy (PStr s) = (s \<noteq> [])"
| "truthy (PList xs) = (xs \<noteq> [])"
| "truthy (PDict kvs) = (kvs \<noteq> [])"

text \<open>\<^verbatim>\<open>obj[key]\<close> with a string key: only a dictionary holding the key answers.\<close>

fun getitem :: "pyval \<Rightarrow> string \<Rightarrow> exn + pyval" where
  "getitem (PDict kvs) k = (case map_of kvs k of None \<Rightarrow> Inl KeyError | Some v \<Rightarrow> Inr v)"
| "getitem PNone k = Inl TypeError"
| "getitem (PBool b) k = Inl TypeError"
| "getitem (PInt i) k = Inl TypeError"
| "getitem (PFloat r) k = Inl TypeError"
| "getitem (PStr s) k = Inl TypeError"
| "getitem (PList xs) k = Inl TypeError"

text \<open>\<^verbatim>\<open>obj[0]\<close>: the first element of a list, the first character of a string.\<close>

fun getitem0 :: "pyval \<Rightarrow> exn + pyval" where
  "getitem0 (PList xs) = (case xs of [] \<Rightarrow> Inl IndexError | x # _ \<Rightarrow> Inr x)"
| "getitem0 (PStr s) = (case s of [] \<Rightarrow> Inl IndexError | c # _ \<Rightarrow> Inr (PStr [c]))"
| "getitem0 (PDict kvs) = Inl KeyError"
| "getitem0 PNone = Inl TypeError"
| "getitem0 (PBool b) = Inl TypeError"
| "getitem0 (PInt i) = Inl TypeError"
| "getitem0 (PFloat r) = Inl TypeError"

text \<open>\<^verbatim>\<open>for x in obj\<close>: the elements of a list, the characters of a string, the keys of a
  dictionary; anything else is not iterable.\<close>

fun iterate :: "pyval \<Rightarrow> exn + pyval list" where
  "iterate (PList xs) = Inr xs"
| "iterate (PStr s) = Inr (map (\<lambda>c. PStr [c]) s)"
| "iterate (PDict kvs) = Inr (map (\<lambda>kv. PStr (fst kv)) kvs)"
| "iterate PNone = Inl TypeError"
| "iterate (PBool b) = Inl TypeError"
| "iterate (PInt i) = Inl TypeError"
| "iterate (PFloat r) = Inl TypeError"

section \<open>String operations\<close>

text \<open>\<^verbatim>\<open>sub in s\<close>.\<close>

fun str_contains :: "string \<Rightarrow> string \<Rightarrow> bool" where
  "str_contains sub [] = (sub = [])"
| "str_contains sub (c # cs) = (prefix sub (c # cs) \<or> str_contains sub cs)"

text \<open>
  \<^verbatim>\<open>s.split(sep)\<close>: the text is scanned from the left; at each occurrence of the separator
  the piece collected so far is closed and the scan resumes behind the separator. An empty
  separator raises \<^verbatim>\<open>ValueError\<close>.
\<close>

function split_from :: "string \<Rightarrow> string \<Rightarrow> string \<Rightarrow> string list" where
  "split_from sep cur [] = [cur]"
| "split_from sep cur (c # cs) =
     (if sep \<noteq> [] \<and> prefix sep (c # cs)
      then cur # split_from sep [] (drop (length sep) (c # cs))
      else split_from sep (cur @ [c]) cs)"
  by pat_completeness auto
termination
  by (relation "measure (\<lambda>(sep, cur, s). length s)") auto

definition str_split :: "string \<Rightarrow> string \<Rightarrow> exn + string list" where
  "str_split s sep = (if sep = [] then Inl ValueError else Inr (split_from sep [] s))"

text \<open>\<^verbatim>\<open>xs[-1]\<close> and \<^verbatim>\<open>xs[0]\<close> on a list of strings.\<close>

definition last_item :: "'a list \<Rightarrow> exn + 'a" where
  "last_item xs = (if xs = [] then Inl IndexError else Inr (last xs))"

definition first_item :: "'a list \<Rightarrow> exn + 'a" where
  "first_item xs = (case xs of [] \<Rightarrow> Inl IndexError | x # _ \<Rightarrow> Inr x)"

text \<open>
  \<^verbatim>\<open>s.strip()\<close> removes leading and trailing whitespace. Below code point 256 the
  whitespace characters of Python are 9 to 13, 28 to 32, 133 and 160.
\<close>

definition is_space :: "char \<Rightarrow> bool" where
  "is_space c = (of_char c \<in> {9, 10, 11, 12, 13, 28, 29, 30, 31, 32, 133, 160 :: nat})"

definition str_strip :: "string \<Rightarrow> string" where
  "str_strip s = rev (dropWhile is_space (rev (dropWhile is_space s)))"


section \<open>External services\<close>

text \<open>
  The platform client \<^verbatim>\<open>youtube\<close> and the pipelines \<^verbatim>\<open>summarizer\<close> and
  \<^verbatim>\<open>sentiment_analyzer\<close> are globals of the module, built at start-up from libraries outside
  the repository. They are parameters of the model: one field per query shape the program
  issues, taking the arguments the program varies and answering with a value or an exception.
  Building a request and executing it happen inside the same \<^verbatim>\<open>try\<close>, so the two are one
  call here.
\<close>

record services =
  videos_list :: "string \<Rightarrow> exn + pyval"
    \<comment> \<open>\<^verbatim>\<open>videos().list(part="snippet", id=...)\<close>\<close>
  channels_list_for_username :: "string \<Rightarrow> exn + pyval"
    \<comment> \<open>\<^verbatim>\<open>channels().list(part="id", forUsername=...)\<close>\<close>
  search_list_channel :: "string \<Rightarrow> nat \<Rightarrow> exn + pyval"
    \<comment> \<open>\<^verbatim>\<open>search().list(part="snippet", type="channel", q=..., maxResults=...)\<close>\<close>
  channels_list_by_id :: "pyval \<Rightarrow> exn + pyval"
    \<comment> \<open>\<^verbatim>\<open>channels().list(part="snippet,statistics", id=...)\<close>\<close>
  search_list_by_date :: "pyval \<Rightarrow> nat \<Rightarrow> exn + pyval"
    \<comment> \<open>\<^verbatim>\<open>search().list(part="snippet", channelId=..., order="date", maxResults=...)\<close>\<close>
  comment_threads_list :: "pyval \<Rightarrow> nat \<Rightarrow> exn + pyval"
    \<comment> \<open>\<^verbatim>\<open>commentThreads().list(part="snippet", videoId=..., maxResults=...)\<close>\<close>
  summarizer :: "pyval \<Rightarrow> nat \<Rightarrow> nat \<Rightarrow> bool \<Rightarrow> exn + pyval"
    \<comment> \<open>\<^verbatim>\<open>summarizer(text, max_length=..., min_length=..., do_sample=...)\<close>\<close>
  sentiment_analyzer :: "pyval \<Rightarrow> exn + pyval"

section \<open>Text annotation\<close>

text \<open>\<^verbatim>\<open>summarize_text\<close>: the body of the \<^verbatim>\<open>try\<close>, then the function with its handler.\<close>

definition summarize_body :: "services \<Rightarrow> pyval \<Rightarrow> exn + pyval" where
  "summarize_body w text =
     and_then (summarizer w text 50 25 False) (\<lambda>summary.
     and_then (getitem0 summary) (\<lambda>first.
     getitem first ''summary_text''))"

definition summarize_text :: "services \<Rightarrow> pyval \<Rightarrow> pyval" where
  "summarize_text w text = (case summarize_body w text of Inl e \<Rightarrow> PNone | Inr v \<Rightarrow> v)"

definition sentiment_body :: "services \<Rightarrow> pyval \<Rightarrow> exn + pyval" where
  "sentiment_body w text = and_then (sentiment_analyzer w text) getitem0"

definition analyze_sentiment :: "services \<Rightarrow> pyval \<Rightarrow> pyval" where
  "analyze_sentiment w text = (case sentiment_body w text of Inl e \<Rightarrow> PNone | Inr v \<Rightarrow> v)"

section \<open>Channel identity lookup\<close>

text \<open>
  Each lookup returns inside its \<^verbatim>\<open>try\<close> when the item list is truthy, and otherwise falls
  through to the final \<^verbatim>\<open>return None\<close>, as it does after the handler. The body yields
  \<open>Some\<close> for the \<^verbatim>\<open>return\<close> inside and \<open>None\<close> for falling through.
\<close>

definition channel_from_video_body :: "services \<Rightarrow> string \<Rightarrow> exn + pyval option" where
  "channel_from_video_body w video_id =
     and_then (videos_list w video_id) (\<lambda>response.
     and_then (getitem response ''items'') (\<lambda>items.
     if truthy items then
       and_then (getitem response ''items'') (\<lambda>items.
       and_then (getitem0 items) (\<lambda>item.
       and_then (getitem item ''snippet'') (\<lambda>snippet.
       and_then (getitem snippet ''channelId'') (\<lambda>cid. Inr (Some cid)))))
     else Inr None))"

definition get_channel_from_video :: "services \<Rightarrow> string \<Rightarrow> pyval" where
  "get_channel_from_video w video_id =
     (case channel_from_video_body w video_id of
        Inl e \<Rightarrow> PNone | Inr None \<Rightarrow> PNone | Inr (Some v) \<Rightarrow> v)"

definition channel_from_username_body :: "services \<Rightarrow> string \<Rightarrow> exn + pyval option" where
  "channel_from_username_body w username =
     and_then (channels_list_for_username w username) (\<lambda>response.
     and_then (getitem response ''items'') (\<lambda>items.
     if truthy items then
       and_then (getitem response ''items'') (\<lambda>items.
       and_then (getitem0 items) (\<lambda>item.
       and_then (getitem item ''id'') (\<lambda>cid. Inr (Some cid))))
     else Inr None))"

definition get_channel_from_username :: "services \<Rightarrow> string \<Rightarrow> pyval" where
  "get_channel_from_username w username =
     (case channel_from_username_body w username of
        Inl e \<Rightarrow> PNone | Inr None \<Rightarrow> PNone | Inr (Some v) \<Rightarrow> v)"

definition channel_from_handle_body :: "services \<Rightarrow> string \<Rightarrow> exn + pyval option" where
  "channel_from_handle_body w handle =
     and_then (search_list_channel w (''@'' @ handle) 1) (\<lambda>response.
     and_then (getitem response ''items'') (\<lambda>items.
     if truthy items then
       and_then (getitem response ''items'') (\<lambda>items.
       and_then (getitem0 items) (\<lambda>item.
       and_then (getitem item ''snippet'') (\<lambda>snippet.
       and_then (getitem snippet ''channelId'') (\<lambda>cid. Inr (Some cid)))))
     else Inr None))"

definition get_channel_from_handle :: "services \<Rightarrow> string \<Rightarrow> pyval" where
  "get_channel_from_handle w handle =
     (case channel_from_handle_body w handle of
        Inl e \<Rightarrow> PNone | Inr None \<Rightarrow> PNone | Inr (Some v) \<Rightarrow> v)"

section \<open>URL resolver\<close>

text \<open>The key expressions of \<^verbatim>\<open>resolve_channel_id\<close>, one per branch.\<close>

definition video_id_of :: "string \<Rightarrow> exn + string" where
  "video_id_of url =
     and_then (str_split url ''v='') (\<lambda>parts.
     and_then (last_item parts) (\<lambda>tail.
     and_then (str_split tail ''&'') first_item))"

definition trailing_after :: "string \<Rightarrow> string \<Rightarrow> exn + string" where
  "trailing_after sep url =
     and_then (str_split url sep) (\<lambda>parts.
     and_then (last_item parts) (\<lambda>tail. Inr (str_strip tail)))"

definition resolve_body :: "services \<Rightarrow> string \<Rightarrow> exn + pyval" where
  "resolve_body w url =
     (if str_contains ''youtube.com/watch?v='' url then
        and_then (video_id_of url) (\<lambda>video_id. Inr (get_channel_from_video w video_id))
      else if str_contains ''youtube.com/channel/'' url then
        and_then (trailing_after ''/channel/'' url) (\<lambda>cid. Inr (PStr cid))
      else if str_contains ''youtube.com/user/'' url then
        and_then (trailing_after ''/user/'' url) (\<lambda>username.
          Inr (get_channel_from_username w username))
      else if str_contains ''youtube.com/@'' url then
        and_then (trailing_after ''@'' url) (\<lambda>handle.
          Inr (get_channel_from_handle w handle))
      else Inl ValueError)"

definition resolve_channel_id :: "services \<Rightarrow> string \<Rightarrow> pyval" where
  "resolve_channel_id w url = (case resolve_body w url of Inl e \<Rightarrow> PNone | Inr v \<Rightarrow> v)"

section \<open>Channel profile\<close>

definition channel_data_body :: "services \<Rightarrow> pyval \<Rightarrow> exn + pyval" where
  "channel_data_body w channel_id =
     and_then (channels_list_by_id w channel_id) (\<lambda>response.
     and_then (getitem response ''items'') (\<lambda>items.
     if truthy items then
       and_then (getitem response ''items'') (\<lambda>items.
       and_then (getitem0 items) (\<lambda>channel.
       and_then (and_then (getitem channel ''snippet'') (\<lambda>s. getitem s ''title'')) (\<lambda>title.
       and_then (and_then (getitem channel ''snippet'') (\<lambda>s. getitem s ''description''))
         (\<lambda>description.
       and_then (and_then (getitem channel ''statistics'') (\<lambda>s. getitem s ''subscriberCount''))
         (\<lambda>subscribers.
       and_then (and_then (getitem channel ''statistics'') (\<lambda>s. getitem s ''viewCount''))
         (\<lambda>views.
       Inr (PDict [(''title'', title), (''description'', description),
                   (''subscribers'', subscribers), (''views'', views)])))))))
     else Inr PNone))"

definition fetch_channel_data :: "services \<Rightarrow> pyval \<Rightarrow> pyval" where
  "fetch_channel_data w channel_id =
     (case channel_data_body w channel_id of Inl e \<Rightarrow> PNone | Inr v \<Rightarrow> v)"

section \<open>Comment aggregation\<close>

text \<open>\<^verbatim>\<open>comment["snippet"]["topLevelComment"]["snippet"][field]\<close>.\<close>

definition comment_field :: "pyval \<Rightarrow> string \<Rightarrow> exn + pyval" where
  "comment_field comment field =
     and_then (getitem comment ''snippet'') (\<lambda>s.
     and_then (getitem s ''topLevelComment'') (\<lambda>t.
     and_then (getitem t ''snippet'') (\<lambda>u. getitem u field)))"

text \<open>The body of the \<^verbatim>\<open>for\<close> loop of \<^verbatim>\<open>fetch_comments\<close>: the record built from one item.\<close>

definition comment_record :: "services \<Rightarrow> pyval \<Rightarrow> exn + pyval" where
  "comment_record w comment =
     and_then (comment_field comment ''authorDisplayName'') (\<lambda>author.
     and_then (comment_field comment ''textDisplay'') (\<lambda>text.
     let summarized_comment = summarize_text w text;
         sentiment = analyze_sentiment w text
     in Inr (PDict [(''author'', author), (''text'', text),
                    (''summarized_comment'', summarized_comment),
                    (''sentiment'', sentiment)])))"

text \<open>The loop appends one record per item to \<^verbatim>\<open>comments_data\<close>; an exception leaves it.\<close>

fun comment_loop :: "services \<Rightarrow> pyval list \<Rightarrow> pyval list \<Rightarrow> exn + pyval list" where
  "comment_loop w [] comments_data = Inr comments_data"
| "comment_loop w (comment # rest) comments_data =
     (case comment_record w comment of
        Inl e \<Rightarrow> Inl e
      | Inr r \<Rightarrow> comment_loop w rest (comments_data @ [r]))"

definition no_comments :: pyval where
  "no_comments = PDict [(''author'', PStr ''No comments''),
                        (''text'', PStr ''No comments available.'')]"

definition fetch_comments_body :: "services \<Rightarrow> pyval \<Rightarrow> exn + pyval list" where
  "fetch_comments_body w video_id =
     and_then (comment_threads_list w video_id 5) (\<lambda>response.
     and_then (getitem response ''items'') (\<lambda>items.
     if truthy items then
       and_then (getitem response ''items'') (\<lambda>items.
       and_then (iterate items) (\<lambda>cs. comment_loop w cs []))
     else Inr ([] @ [no_comments])))"

definition fetch_comments :: "services \<Rightarrow> pyval \<Rightarrow> pyval list" where
  "fetch_comments w video_id =
     (case fetch_comments_body w video_id of Inl e \<Rightarrow> [] | Inr cs \<Rightarrow> cs)"

section \<open>Latest content\<close>

definition latest_video_body :: "services \<Rightarrow> pyval \<Rightarrow> exn + pyval" where
  "latest_video_body w channel_id =
     and_then (search_list_by_date w channel_id 1) (\<lambda>response.
     and_then (getitem response ''items'') (\<lambda>items.
     if truthy items then
       and_then (getitem response ''items'') (\<lambda>items.
       and_then (getitem0 items) (\<lambda>video.
       and_then (and_then (getitem video ''id'') (\<lambda>i. getitem i ''videoId'')) (\<lambda>video_id.
       and_then (and_then (getitem video ''snippet'') (\<lambda>s. getitem s ''title'')) (\<lambda>title.
       and_then (and_then (getitem video ''snippet'') (\<lambda>s. getitem s ''description''))
         (\<lambda>description.
       and_then (and_then (getitem video ''snippet'') (\<lambda>s. getitem s ''publishedAt''))
         (\<lambda>published_at.
       let summarized_description = summarize_text w description;
           sentiment = analyze_sentiment w description;
           comments = fetch_comments w video_id
       in Inr (PDict [(''video_id'', video_id), (''title'', title),
                      (''description'', description), (''published_at'', published_at),
                      (''summarized_description'', summarized_description),
                      (''sentiment'', sentiment), (''comments'', PList comments)])))))))
     else Inr PNone))"

definition fetch_latest_video_details :: "services \<Rightarrow> pyval \<Rightarrow> pyval" where
  "fetch_latest_video_details w channel_id =
     (case latest_video_body w channel_id of Inl e \<Rightarrow> PNone | Inr v \<Rightarrow> v)"

section \<open>Presentation boundary\<close>

text \<open>
  A request carries its method and its form fields; a response is the template rendered and
  the variables handed to it. A form without the field \<^verbatim>\<open>url\<close> makes the lookup
  \<^verbatim>\<open>request.form["url"]\<close> raise, outside any handler of the program.
\<close>

record request =
  req_method :: string
  req_form :: "string \<rightharpoonup> string"

datatype page = Rendered string "(string \<times> pyval) list"

definition index :: "services \<Rightarrow> request \<Rightarrow> exn + page" where
  "index w req =
     (if req_method req = ''POST'' then
        (case req_form req ''url'' of
           None \<Rightarrow> Inl BadRequest
         | Some url \<Rightarrow>
             let channel_id = resolve_channel_id w url in
             if truthy channel_id then
               let channel_data = fetch_channel_data w channel_id;
                   video_data = fetch_latest_video_details w channel_id
               in Inr (Rendered ''result.html''
                         [(''channel_data'', channel_data), (''video_data'', video_data)])
             else Inr (Rendered ''index.html'' [(''error'', PStr ''Invalid YouTube URL'')]))
      else Inr (Rendered ''index.html'' []))"

section \<open>A sample platform\<close>

text \<open>
  Concrete services on which the functions above can be evaluated: three known videos, one
  known username and handle, a video without comments, one with three and one with seven
  comment threads. The summarizer fails on the text \<open>ok\<close>, the sentiment analyzer on the text
  \<open>third\<close>; every query not listed raises.
\<close>

definition items_response :: "pyval list \<Rightarrow> pyval" where
  "items_response xs = PDict [(''kind'', PStr ''youtube#listResponse''), (''items'', PList xs)]"

definition thread :: "string \<Rightarrow> string \<Rightarrow> pyval" where
  "thread author text =
     PDict [(''snippet'', PDict [(''topLevelComment'',
       PDict [(''snippet'', PDict [(''authorDisplayName'', PStr author),
                                   (''textDisplay'', PStr text)])])])]"

definition sample_threads :: "pyval list" where
  "sample_threads =
     [thread ''u1'' ''first'', thread ''u2'' ''ok'', thread ''u3'' ''third'',
      thread ''u4'' ''fourth'', thread ''u5'' ''fifth'', thread ''u6'' ''sixth'',
      thread ''u7'' ''seventh'']"

definition owned_by :: "string \<Rightarrow> pyval" where
  "owned_by cid = items_response [PDict [(''snippet'', PDict [(''channelId'', PStr cid)])]]"

definition sample_services :: services where
  "sample_services = \<lparr>
     videos_list = (\<lambda>vid.
       if vid = ''ABC'' then Inr (owned_by ''UC_ABC'')
       else if vid = ''XYZ'' then Inr (owned_by ''UC_XYZ'')
       else if vid = ''GONE'' then Inr (items_response [])
       else Inl ServiceError),
     channels_list_for_username = (\<lambda>name.
       if name = ''alice'' then Inr (items_response [PDict [(''id'', PStr ''UC_ALICE'')]])
       else if name = ''nobody'' then Inr (items_response [])
       else Inl ServiceError),
     search_list_channel = (\<lambda>q n.
       if q = ''@alice'' then Inr (owned_by ''UC_ALICE'')
       else if q = ''@nobody'' then Inr (items_response [])
       else Inl ServiceError),
     channels_list_by_id = (\<lambda>cid. Inl ServiceError),
     search_list_by_date = (\<lambda>cid n. Inl ServiceError),
     comment_threads_list = (\<lambda>vid n.
       if vid = PStr ''V0'' then Inr (items_response [])
       else if vid = PStr ''V3'' then Inr (items_response (take n (take 3 sample_threads)))
       else if vid = PStr ''V7'' then Inr (items_response (take n sample_threads))
       else Inl ServiceError),
     summarizer = (\<lambda>text max_length min_length do_sample.
       if text = PStr ''ok'' then Inl ServiceError
       else Inr (PList [PDict [(''summary_text'', PStr ''short'')]])),
     sentiment_analyzer = (\<lambda>text.
       if text = PStr ''third'' then Inl ServiceError
       else Inr (PList [PDict [(''label'', PStr ''POSITIVE''), (''score'', PFloat 0.99)]]))
   \<rparr>"

section \<open>Auxiliary facts\<close>

subsection \<open>Sequencing\<close>

lemma and_then_Inl [simp]: "and_then (Inl e) f = Inl e"
  by (simp add: and_then_def)

lemma and_then_Inr [simp]: "and_then (Inr v) f = f v"
  by (simp add: and_then_def)

subsection \<open>Containment and splitting\<close>


lemma split_from_match:
  "sep \<noteq> [] \<Longrightarrow> prefix sep (c # cs) \<Longrightarrow>
   split_from sep cur (c # cs) = cur # split_from sep [] (drop (length sep) (c # cs))"
  by (subst split_from.simps(2)) (simp only: simp_thms if_True)

lemma split_from_skip:
  "sep = [] \<or> \<not> prefix sep (c # cs) \<Longrightarrow>
   split_from sep cur (c # cs) = split_from sep (cur @ [c]) cs"
  by (subst split_from.simps(2)) (auto simp only: simp_thms if_False)

text \<open>The piece under construction is only ever extended in front of the first piece.\<close>

lemma split_from_cur:
  "split_from sep cur s = (cur @ hd (split_from sep [] s)) # tl (split_from sep [] s)"
proof (induction s arbitrary: cur rule: length_induct)
  case (1 s)
  show ?case
  proof (cases s)
    case Nil
    then show ?thesis by simp
  next
    case (Cons c cs)
    show ?thesis
    proof (cases "sep \<noteq> [] \<and> prefix sep (c # cs)")
      case True
      then have m: "sep \<noteq> []" "prefix sep (c # cs)" by blast+
      have "split_from sep cur (c # cs) = cur # split_from sep [] (drop (length sep) (c # cs))"
        and "split_from sep [] (c # cs) = [] # split_from sep [] (drop (length sep) (c # cs))"
        by (rule split_from_match[OF m])+
      then show ?thesis unfolding Cons by (simp only: list.sel append_Nil2)
    next
      case False
      have lt: "length cs < length s" using Cons by simp
      have a: "split_from sep (cur @ [c]) cs =
                 ((cur @ [c]) @ hd (split_from sep [] cs)) # tl (split_from sep [] cs)"
        by (rule 1[rule_format, OF lt])
      have b: "split_from sep [c] cs =
                 ([c] @ hd (split_from sep [] cs)) # tl (split_from sep [] cs)"
        by (rule 1[rule_format, OF lt])
      from False have "split_from sep cur s = split_from sep (cur @ [c]) cs"
        unfolding Cons by (intro split_from_skip) blast
      moreover from False have "split_from sep [] s = split_from sep [c] cs"
        unfolding Cons using split_from_skip[of sep c cs "[]"] by auto
      ultimately show ?thesis using a b by simp
    qed
  qed
qed

lemma split_from_nonempty: "split_from sep cur s \<noteq> []"
  by (subst split_from_cur) simp







lemma first_item_split: "first_item (split_from sep cur s) = Inr (hd (split_from sep cur s))"
  using split_from_nonempty[of sep cur s]
  by (cases "split_from sep cur s") (simp_all add: first_item_def)

lemma video_id_of_total:
  "video_id_of url = Inr (hd (split_from ''&'' [] (last (split_from ''v='' [] url))))"
  by (simp add: video_id_of_def str_split_def last_item_def split_from_nonempty
      first_item_split)

lemma trailing_after_total:
  "sep \<noteq> [] \<Longrightarrow> trailing_after sep url = Inr (str_strip (last (split_from sep [] url)))"
  by (simp add: trailing_after_def str_split_def last_item_def split_from_nonempty)

subsection \<open>The comment loop\<close>

lemma comment_loop_append:
  "comment_loop w cs acc = Inr out \<Longrightarrow>
   \<exists>rs. out = acc @ rs \<and> map Inr rs = map (comment_record w) cs"
proof (induction cs arbitrary: acc)
  case Nil
  then show ?case by simp
next
  case (Cons c cs)
  then obtain r where r: "comment_record w c = Inr r"
    and rest: "comment_loop w cs (acc @ [r]) = Inr out"
    by (auto split: sum.splits)
  from Cons.IH[OF rest] obtain rs where "out = (acc @ [r]) @ rs"
    and "map Inr rs = map (comment_record w) cs" by blast
  then show ?case using r by (intro exI[of _ "r # rs"]) simp
qed

lemma comment_loop_ok:
  "\<forall>c\<in>set cs. \<exists>r. comment_record w c = Inr r \<Longrightarrow>
   \<exists>out. comment_loop w cs acc = Inr out"
proof (induction cs arbitrary: acc)
  case Nil
  then show ?case by simp
next
  case (Cons c cs)
  then obtain r where r: "comment_record w c = Inr r" by auto
  from Cons obtain out where "comment_loop w cs (acc @ [r]) = Inr out" by fastforce
  then show ?case using r by simp
qed

lemma fetch_comments_raise:
  "comment_threads_list w vid 5 = Inl e \<Longrightarrow> fetch_comments w vid = []"
  by (simp add: fetch_comments_def fetch_comments_body_def)

lemma fetch_comments_zero:
  "comment_threads_list w vid 5 = Inr response \<Longrightarrow>
   getitem response ''items'' = Inr (PList []) \<Longrightarrow>
   fetch_comments w vid = [no_comments]"
  by (simp add: fetch_comments_def fetch_comments_body_def)

lemma fetch_comments_items:
  "comment_threads_list w vid 5 = Inr response \<Longrightarrow>
   getitem response ''items'' = Inr (PList items) \<Longrightarrow> items \<noteq> [] \<Longrightarrow>
   fetch_comments w vid = (case comment_loop w items [] of Inl e \<Rightarrow> [] | Inr cs \<Rightarrow> cs)"
  by (simp add: fetch_comments_def fetch_comments_body_def)

lemma comment_record_PStr: "comment_record w (PStr s) = Inl TypeError"
  by (simp add: comment_record_def comment_field_def)

text \<open>
  Whatever the platform answers, the result is empty, the placeholder alone, or one record per
  item of the answered list, in the order of that list.
\<close>

lemma fetch_comments_cases:
  "fetch_comments w vid = [] \<or> fetch_comments w vid = [no_comments] \<or>
   (\<exists>response items. comment_threads_list w vid 5 = Inr response \<and>
      getitem response ''items'' = Inr (PList items) \<and> items \<noteq> [] \<and>
      map Inr (fetch_comments w vid) = map (comment_record w) items)"
proof (cases "comment_threads_list w vid 5")
  case (Inl e)
  then show ?thesis by (simp add: fetch_comments_raise)
next
  case (Inr response)
  show ?thesis
  proof (cases "getitem response ''items''")
    case (Inl e)
    then show ?thesis using Inr by (simp add: fetch_comments_def fetch_comments_body_def)
  next
    case items: (Inr items)
    show ?thesis
    proof (cases items)
      case (PList xs)
      show ?thesis
      proof (cases "xs = []")
        case True
        then show ?thesis using Inr items PList by (simp add: fetch_comments_zero)
      next
        case False
        have f: "fetch_comments w vid =
                   (case comment_loop w xs [] of Inl e \<Rightarrow> [] | Inr cs \<Rightarrow> cs)"
          using fetch_comments_items Inr items PList False by simp
        show ?thesis
        proof (cases "comment_loop w xs []")
          case (Inl e)
          then show ?thesis using f by simp
        next
          case out: (Inr out)
          from comment_loop_append[OF out]
          have "map Inr out = map (comment_record w) xs" by auto
          then show ?thesis using f out Inr items PList False by auto
        qed
      qed
    next
      case (PStr s)
      then show ?thesis using Inr items
        by (cases s) (simp_all add: fetch_comments_def fetch_comments_body_def
            comment_record_PStr)
    next
      case (PDict kvs)
      then show ?thesis using Inr items
        by (cases kvs) (simp_all add: fetch_comments_def fetch_comments_body_def
            comment_record_PStr)
    qed (use Inr items in \<open>simp_all add: fetch_comments_def fetch_comments_body_def\<close>)
  qed
qed

lemma fetch_comments_all_ok:
  assumes "comment_threads_list w vid 5 = Inr response"
    and "getitem response ''items'' = Inr (PList items)"
    and "items \<noteq> []"
    and "\<forall>c\<in>set items. \<exists>r. comment_record w c = Inr r"
  shows "map Inr (fetch_comments w vid) = map (comment_record w) items"
proof -
  from comment_loop_ok[OF assms(4)] obtain out where out: "comment_loop w items [] = Inr out"
    by blast
  from comment_loop_append[OF out] have "map Inr out = map (comment_record w) items" by auto
  then show ?thesis using fetch_comments_items[OF assms(1-3)] out by simp
qed

lemma fetch_comments_in_order:
  assumes "comment_threads_list w vid 5 = Inr response"
    and "getitem response ''items'' = Inr (PList items)"
    and "items \<noteq> []"
    and "fetch_comments w vid \<noteq> []"
  shows "map Inr (fetch_comments w vid) = map (comment_record w) items"
proof (cases "comment_loop w items []")
  case (Inl e)
  then show ?thesis using fetch_comments_items[OF assms(1-3)] assms(4) by simp
next
  case (Inr out)
  from comment_loop_append[OF Inr] have "map Inr out = map (comment_record w) items" by auto
  then show ?thesis using fetch_comments_items[OF assms(1-3)] Inr by simp
qed


lemma comment_record_shape:
  "comment_record w c = Inr r \<Longrightarrow>
   \<exists>a t s m. r = PDict [(''author'', a), (''text'', t), (''summarized_comment'', s),
                        (''sentiment'', m)]"
  by (cases "comment_field c ''authorDisplayName''"; cases "comment_field c ''textDisplay''")
    (auto simp: comment_record_def)

subsection \<open>The sample platform\<close>

lemmas sample_defs = sample_services_def items_response_def owned_by_def thread_def
  sample_threads_def

lemma sample_threads_ok: "c \<in> set sample_threads \<Longrightarrow> \<exists>r. comment_record sample_services c = Inr r"
  by (auto simp: sample_threads_def thread_def comment_record_def comment_field_def)

lemma sample_three_eval:
  "fetch_comments sample_services (PStr ''V3'') =
     [PDict [(''author'', PStr ''u1''), (''text'', PStr ''first''),
             (''summarized_comment'', PStr ''short''),
             (''sentiment'', PDict [(''label'', PStr ''POSITIVE''), (''score'', PFloat 0.99)])],
      PDict [(''author'', PStr ''u2''), (''text'', PStr ''ok''),
             (''summarized_comment'', PNone),
             (''sentiment'', PDict [(''label'', PStr ''POSITIVE''), (''score'', PFloat 0.99)])],
      PDict [(''author'', PStr ''u3''), (''text'', PStr ''third''),
             (''summarized_comment'', PStr ''short''),
             (''sentiment'', PNone)]]"
  by (simp add: sample_defs fetch_comments_def fetch_comments_body_def
      comment_record_def comment_field_def summarize_text_def summarize_body_def
      analyze_sentiment_def sentiment_body_def)

text \<open>The example of the specification: the video id of \<^verbatim>\<open>.../watch?v=ABC&t=10\<close>.\<close>

lemma video_id_of_example: "video_id_of ''https://www.youtube.com/watch?v=ABC&t=10'' = Inr ''ABC''"
  by (simp add: video_id_of_def str_split_def last_item_def first_item_def)


section \<open>Properties of the URL resolver\<close>

text \<open>
  Claim C1. For a URL containing \<^verbatim>\<open>youtube.com/watch?v=\<close> the video id handed to the video
  lookup should be the value of the \<^verbatim>\<open>v\<close> parameter, up to the next \<^verbatim>\<open>&\<close> or the end.
  The program cuts at the last occurrence of \<^verbatim>\<open>v=\<close> in the whole URL instead. On
  \<^verbatim>\<open>https://www.youtube.com/watch?v=ABC&rv=XYZ\<close> the video-watch branch is taken, the id
  extracted is \<open>XYZ\<close> and not \<open>ABC\<close>, and on the sample platform the channel resolved is the
  owner of \<open>XYZ\<close>, while the owner of \<open>ABC\<close> is another channel.
\<close>

theorem video_id_taken_after_last_marker:
  "str_contains ''youtube.com/watch?v='' ''https://www.youtube.com/watch?v=ABC&rv=XYZ'' \<and>
   video_id_of ''https://www.youtube.com/watch?v=ABC&rv=XYZ'' = Inr ''XYZ'' \<and>
   resolve_channel_id sample_services ''https://www.youtube.com/watch?v=ABC&rv=XYZ'' =
     PStr ''UC_XYZ'' \<and>
   get_channel_from_video sample_services ''ABC'' = PStr ''UC_ABC''"
  by (simp add: resolve_channel_id_def resolve_body_def video_id_of_def str_split_def
      last_item_def first_item_def get_channel_from_video_def channel_from_video_body_def
      sample_defs)

text \<open>
  Claim C2. The four shapes are tested in the order video-watch, channel-path, user-path,
  handle, and the first shape found decides alone: a URL with the video-watch marker goes to
  the video lookup whatever else it contains; the channel path is taken only without the
  video-watch marker; the username lookup only without the two before; the handle lookup only
  without the three before; with none of the four the result is \<open>None\<close>. The key handed on
  is always obtained (no branch raises while extracting it).
\<close>

theorem resolve_priority_order:
  "(str_contains ''youtube.com/watch?v='' url \<longrightarrow>
      resolve_channel_id w url =
        get_channel_from_video w (hd (split_from ''&'' [] (last (split_from ''v='' [] url))))) \<and>
   (\<not> str_contains ''youtube.com/watch?v='' url \<and> str_contains ''youtube.com/channel/'' url \<longrightarrow>
      resolve_channel_id w url = PStr (str_strip (last (split_from ''/channel/'' [] url)))) \<and>
   (\<not> str_contains ''youtube.com/watch?v='' url \<and> \<not> str_contains ''youtube.com/channel/'' url \<and>
    str_contains ''youtube.com/user/'' url \<longrightarrow>
      resolve_channel_id w url =
        get_channel_from_username w (str_strip (last (split_from ''/user/'' [] url)))) \<and>
   (\<not> str_contains ''youtube.com/watch?v='' url \<and> \<not> str_contains ''youtube.com/channel/'' url \<and>
    \<not> str_contains ''youtube.com/user/'' url \<and> str_contains ''youtube.com/@'' url \<longrightarrow>
      resolve_channel_id w url =
        get_channel_from_handle w (str_strip (last (split_from ''@'' [] url)))) \<and>
   (\<not> str_contains ''youtube.com/watch?v='' url \<and> \<not> str_contains ''youtube.com/channel/'' url \<and>
    \<not> str_contains ''youtube.com/user/'' url \<and> \<not> str_contains ''youtube.com/@'' url \<longrightarrow>
      resolve_channel_id w url = PNone)"
  by (simp add: resolve_channel_id_def resolve_body_def video_id_of_total trailing_after_total)

theorem resolve_priority_order_witness:
  "str_contains ''youtube.com/watch?v='' ''youtube.com/watch?v=ABC&from=youtube.com/channel/UC9'' \<and>
   str_contains ''youtube.com/channel/'' ''youtube.com/watch?v=ABC&from=youtube.com/channel/UC9'' \<and>
   resolve_channel_id sample_services ''youtube.com/watch?v=ABC&from=youtube.com/channel/UC9'' =
     get_channel_from_video sample_services ''ABC'' \<and>
   resolve_channel_id sample_services ''youtube.com/channel/UC9/youtube.com/user/alice'' =
     PStr ''UC9/youtube.com/user/alice'' \<and>
   resolve_channel_id sample_services ''youtube.com/user/alice?x=youtube.com/@nobody'' =
     get_channel_from_username sample_services ''alice?x=youtube.com/@nobody'' \<and>
   resolve_channel_id sample_services ''https://www.youtube.com/@alice'' =
     get_channel_from_handle sample_services ''alice'' \<and>
   resolve_channel_id sample_services ''alice@example.org'' = PNone"
  using resolve_priority_order[of "''youtube.com/watch?v=ABC&from=youtube.com/channel/UC9''" sample_services]
    resolve_priority_order[of "''youtube.com/channel/UC9/youtube.com/user/alice''" sample_services]
    resolve_priority_order[of "''youtube.com/user/alice?x=youtube.com/@nobody''" sample_services]
    resolve_priority_order[of "''https://www.youtube.com/@alice''" sample_services]
    resolve_priority_order[of "''alice@example.org''" sample_services]
  by (simp add: str_strip_def is_space_def)

text \<open>
  Claim C3. A URL with none of the four markers makes the body of \<^verbatim>\<open>resolve_channel_id\<close>
  raise \<^verbatim>\<open>ValueError\<close>, which its handler turns into \<open>None\<close>: no resolution and no
  escaping exception. A POST of such a URL is answered by the form page carrying the error
  \<open>Invalid YouTube URL\<close>, not by the result page.
\<close>

theorem unrecognized_url_fails:
  assumes "\<not> str_contains ''youtube.com/watch?v='' url"
    and "\<not> str_contains ''youtube.com/channel/'' url"
    and "\<not> str_contains ''youtube.com/user/'' url"
    and "\<not> str_contains ''youtube.com/@'' url"
  shows "resolve_body w url = Inl ValueError \<and> resolve_channel_id w url = PNone \<and>
    (req_method req = ''POST'' \<and> req_form req ''url'' = Some url \<longrightarrow>
       index w req = Inr (Rendered ''index.html'' [(''error'', PStr ''Invalid YouTube URL'')]))"
  using assms by (simp add: index_def resolve_channel_id_def resolve_body_def)

theorem unrecognized_url_fails_witness:
  "resolve_channel_id sample_services ''not-a-youtube-url'' = PNone \<and>
   index sample_services
     \<lparr>req_method = ''POST'', req_form = [''url'' \<mapsto> ''not-a-youtube-url'']\<rparr> =
     Inr (Rendered ''index.html'' [(''error'', PStr ''Invalid YouTube URL'')])"
  using unrecognized_url_fails[of "''not-a-youtube-url''" sample_services
      "\<lparr>req_method = ''POST'', req_form = [''url'' \<mapsto> ''not-a-youtube-url'']\<rparr>"]
  by simp




section \<open>Properties of the identity lookups\<close>

text \<open>
  Claim C6. Each of the three lookups (by video id, by username, by handle) returns \<open>None\<close>
  when its query raises and also when its query answers with an empty item list; the lookups
  are total functions into values, so no exception reaches the caller, and the two cases give
  the same value.
\<close>

theorem lookup_failures_collapse:
  "(videos_list w v = Inl e \<longrightarrow> get_channel_from_video w v = PNone) \<and>
   (videos_list w v = Inr r \<and> getitem r ''items'' = Inr (PList []) \<longrightarrow>
      get_channel_from_video w v = PNone) \<and>
   (channels_list_for_username w u = Inl e \<longrightarrow> get_channel_from_username w u = PNone) \<and>
   (channels_list_for_username w u = Inr r \<and> getitem r ''items'' = Inr (PList []) \<longrightarrow>
      get_channel_from_username w u = PNone) \<and>
   (search_list_channel w (''@'' @ h) 1 = Inl e \<longrightarrow> get_channel_from_handle w h = PNone) \<and>
   (search_list_channel w (''@'' @ h) 1 = Inr r \<and> getitem r ''items'' = Inr (PList []) \<longrightarrow>
      get_channel_from_handle w h = PNone)"
  by (simp add: get_channel_from_video_def channel_from_video_body_def
      get_channel_from_username_def channel_from_username_body_def
      get_channel_from_handle_def channel_from_handle_body_def)

theorem lookup_failures_collapse_witness:
  "get_channel_from_video sample_services ''GONE'' = PNone \<and>
   get_channel_from_video sample_services ''down'' = PNone \<and>
   get_channel_from_username sample_services ''nobody'' = PNone \<and>
   get_channel_from_username sample_services ''down'' = PNone \<and>
   get_channel_from_handle sample_services ''nobody'' = PNone \<and>
   get_channel_from_handle sample_services ''down'' = PNone"
  using lookup_failures_collapse[of sample_services "''GONE''" _ "items_response []"
      "''nobody''" "''nobody''"]
    lookup_failures_collapse[of sample_services "''down''" ServiceError _ "''down''" "''down''"]
  by (simp add: sample_defs)

section \<open>Properties of comment aggregation and annotation\<close>

text \<open>
  Claim C4. When the platform answers the comment query with an empty item list,
  \<^verbatim>\<open>fetch_comments\<close> returns the list holding the placeholder record alone: one element,
  not the empty list.
\<close>

theorem zero_comments_sentinel:
  assumes "comment_threads_list w vid 5 = Inr response"
    and "getitem response ''items'' = Inr (PList [])"
  shows "fetch_comments w vid = [no_comments] \<and> length (fetch_comments w vid) = 1"
  using fetch_comments_zero[OF assms] by simp

theorem zero_comments_sentinel_witness:
  "fetch_comments sample_services (PStr ''V0'') = [no_comments]"
  using zero_comments_sentinel[of sample_services "PStr ''V0''" "items_response []"]
  by (simp add: sample_defs)

text \<open>
  Claim C5. \<^verbatim>\<open>fetch_comments\<close> returns a list in every case (its type has no \<open>None\<close>). It
  asks the platform for at most 5 threads (\<^verbatim>\<open>maxResults=5\<close>) and builds one record per item
  answered; so, for a platform that answers with no more items than asked for, the result has
  at most 5 records. Whenever records are built from a non-empty answer, the i-th record is the
  record of the i-th item: the platform's order is kept. For a video with more than 5 threads,
  of which the platform answers the first 5 (each with author and text), exactly 5 records are
  returned, in that order.
\<close>

theorem fetch_comments_capped_in_order:
  assumes cap: "\<forall>response items. comment_threads_list w vid 5 = Inr response \<and>
      getitem response ''items'' = Inr (PList items) \<longrightarrow> length items \<le> 5"
  shows "length (fetch_comments w vid) \<le> 5 \<and>
    (\<forall>response items. comment_threads_list w vid 5 = Inr response \<and>
        getitem response ''items'' = Inr (PList items) \<and> items \<noteq> [] \<and>
        fetch_comments w vid \<noteq> [] \<longrightarrow>
        map Inr (fetch_comments w vid) = map (comment_record w) items) \<and>
    (\<forall>response threads. comment_threads_list w vid 5 = Inr response \<and>
        getitem response ''items'' = Inr (PList (take 5 threads)) \<and> 5 < length threads \<and>
        (\<forall>c\<in>set (take 5 threads). \<exists>r. comment_record w c = Inr r) \<longrightarrow>
        length (fetch_comments w vid) = 5 \<and>
        map Inr (fetch_comments w vid) = map (comment_record w) (take 5 threads))"
proof (intro conjI allI impI)
  from fetch_comments_cases[of w vid] show "length (fetch_comments w vid) \<le> 5"
  proof (elim disjE exE conjE)
    fix response items
    assume a: "comment_threads_list w vid 5 = Inr response"
      "getitem response ''items'' = Inr (PList items)"
      and m: "map Inr (fetch_comments w vid) = map (comment_record w) items"
    from m have "length (fetch_comments w vid) = length items" by (metis length_map)
    then show ?thesis using cap a by auto
  qed simp_all
next
  fix response items
  assume "comment_threads_list w vid 5 = Inr response \<and>
        getitem response ''items'' = Inr (PList items) \<and> items \<noteq> [] \<and>
        fetch_comments w vid \<noteq> []"
  then show "map Inr (fetch_comments w vid) = map (comment_record w) items"
    using fetch_comments_in_order by blast
next
  fix response threads
  assume a: "comment_threads_list w vid 5 = Inr response \<and>
        getitem response ''items'' = Inr (PList (take 5 threads)) \<and> 5 < length threads \<and>
        (\<forall>c\<in>set (take 5 threads). \<exists>r. comment_record w c = Inr r)"
  then have ne: "take 5 threads \<noteq> []" by auto
  from a have m: "map Inr (fetch_comments w vid) = map (comment_record w) (take 5 threads)"
    using fetch_comments_all_ok[OF _ _ ne] by blast
  then have "length (fetch_comments w vid) = length (take 5 threads)" by (metis length_map)
  then show "length (fetch_comments w vid) = 5" using a by simp
  show "map Inr (fetch_comments w vid) = map (comment_record w) (take 5 threads)" by (rule m)
qed

theorem fetch_comments_capped_in_order_witness:
  "length (fetch_comments sample_services (PStr ''V7'')) = 5 \<and>
   map Inr (fetch_comments sample_services (PStr ''V7'')) =
     map (comment_record sample_services) (take 5 sample_threads)"
proof -
  have call: "comment_threads_list sample_services (PStr ''V7'') 5 =
      Inr (items_response (take 5 sample_threads))"
    by (simp add: sample_services_def)
  have items: "getitem (items_response (take 5 sample_threads)) ''items'' =
      Inr (PList (take 5 sample_threads))"
    by (simp add: items_response_def)
  have cap: "\<forall>response items.
      comment_threads_list sample_services (PStr ''V7'') 5 = Inr response \<and>
      getitem response ''items'' = Inr (PList items) \<longrightarrow> length items \<le> 5"
    using call items by simp
  have len: "5 < length sample_threads" by (simp add: sample_threads_def)
  have ok: "\<forall>c\<in>set (take 5 sample_threads). \<exists>r. comment_record sample_services c = Inr r"
    using sample_threads_ok by (meson in_set_takeD)
  from fetch_comments_capped_in_order[of sample_services "PStr ''V7''", OF cap]
  show ?thesis using call items len ok by blast
qed



text \<open>
  Claim C9. The placeholder record has exactly the two fields \<open>author\<close> (\<open>No comments\<close>) and
  \<open>text\<close> (\<open>No comments available.\<close>); looking up \<open>summarized_comment\<close> or \<open>sentiment\<close>
  in it raises \<^verbatim>\<open>KeyError\<close>. It is what \<^verbatim>\<open>fetch_comments\<close> returns for an empty item list,
  and every other record \<^verbatim>\<open>fetch_comments\<close> can return has the four fields \<open>author\<close>,
  \<open>text\<close>, \<open>summarized_comment\<close> and \<open>sentiment\<close>.
\<close>

theorem sentinel_has_two_fields:
  "no_comments = PDict [(''author'', PStr ''No comments''),
                        (''text'', PStr ''No comments available.'')] \<and>
   getitem no_comments ''summarized_comment'' = Inl KeyError \<and>
   getitem no_comments ''sentiment'' = Inl KeyError \<and>
   (comment_threads_list w vid 5 = Inr response \<and>
    getitem response ''items'' = Inr (PList []) \<longrightarrow> fetch_comments w vid = [no_comments]) \<and>
   (\<forall>r\<in>set (fetch_comments w vid). r = no_comments \<or>
      (\<exists>a t s m. r = PDict [(''author'', a), (''text'', t), (''summarized_comment'', s),
                            (''sentiment'', m)]))"
proof (intro conjI impI ballI)
  fix r assume r: "r \<in> set (fetch_comments w vid)"
  from fetch_comments_cases[of w vid]
  show "r = no_comments \<or>
      (\<exists>a t s m. r = PDict [(''author'', a), (''text'', t), (''summarized_comment'', s),
                            (''sentiment'', m)])"
  proof (elim disjE exE conjE)
    fix response items
    assume "map Inr (fetch_comments w vid) = map (comment_record w) items"
    then have "Inr r \<in> comment_record w ` set items"
      using r by (metis image_eqI list.set_map)
    then obtain c where "comment_record w c = Inr r" by auto
    then show ?thesis using comment_record_shape by blast
  qed (use r in simp_all)
qed (simp_all add: no_comments_def fetch_comments_zero[unfolded no_comments_def])

theorem sentinel_has_two_fields_witness:
  "fetch_comments sample_services (PStr ''V0'') =
     [PDict [(''author'', PStr ''No comments''), (''text'', PStr ''No comments available.'')]] \<and>
   map (\<lambda>r. getitem r ''sentiment'') (fetch_comments sample_services (PStr ''V0'')) =
     [Inl KeyError] \<and>
   map (\<lambda>r. getitem r ''sentiment'') (fetch_comments sample_services (PStr ''V3'')) =
     [Inr (PDict [(''label'', PStr ''POSITIVE''), (''score'', PFloat 0.99)]),
      Inr (PDict [(''label'', PStr ''POSITIVE''), (''score'', PFloat 0.99)]),
      Inr PNone]"
proof -
  have "fetch_comments sample_services (PStr ''V0'') = [no_comments]"
    using sentinel_has_two_fields[of sample_services "PStr ''V0''" "items_response []"]
    by (simp add: sample_services_def items_response_def)
  then show ?thesis by (simp add: no_comments_def sample_three_eval)
qed

text \<open>
  Claim C10. When the comment query raises, \<^verbatim>\<open>fetch_comments\<close> returns the empty list; when
  it answers with an empty item list the result is not empty. So the empty list is reachable
  and tells a failed request from a video without comments.
\<close>

theorem request_error_gives_empty:
  "(comment_threads_list w vid 5 = Inl e \<longrightarrow> fetch_comments w vid = []) \<and>
   (comment_threads_list w vid 5 = Inr response \<and> getitem response ''items'' = Inr (PList []) \<longrightarrow>
      fetch_comments w vid \<noteq> [])"
  by (auto simp: fetch_comments_raise fetch_comments_zero)

theorem request_error_gives_empty_witness:
  "fetch_comments sample_services (PStr ''unknown'') = [] \<and>
   fetch_comments sample_services (PStr ''V0'') \<noteq> []"
  using request_error_gives_empty[of sample_services "PStr ''unknown''" ServiceError]
    request_error_gives_empty[of sample_services "PStr ''V0''" _ "items_response []"]
  by (simp add: sample_defs)

end
